theory Spec2Isabelle
  imports
    Complex_Main
    "HOL-Library.Char_ord"
    "HOL-Library.List_Lexorder"
    "HOL-Library.Product_Lexorder"
    "HOL-Library.Multiset"
begin

section \<open>Python values and exceptions\<close>

text \<open>
  The payloads handled by the framework are JSON-like Python values. A dict is an
  association list in insertion order; a well-formed dict has distinct keys and
  \<open>d.get(k)\<close> is \<open>map_of d k\<close>.
\<close>

datatype pyval =
    PNone
  | PBool bool
  | PInt int
  | PStr string
  | PList "pyval list"
  | PDict "(string \<times> pyval) list"

type_synonym pydict = "(string \<times> pyval) list"

text \<open>
  An exception of class \<open>Exception\<close>, which is what every \<open>except Exception\<close> of the
  source catches: its class and its message. \<open>KeyboardInterrupt\<close>, \<open>SystemExit\<close> and
  the other classes that derive from \<open>BaseException\<close> only stop the whole process and
  are not values of this type.
\<close>

datatype exc =
    TypeError string
  | KeyError string
  | AttributeError string
  | OtherError string

text \<open>
  \<open>repr(s)\<close> of a string: Python quotes it with \<open>'\<close>, or with \<open>"\<close> when the string holds
  a \<open>'\<close> and no \<open>"\<close>; it escapes the backslash and the quote in use, writes tab, newline
  and carriage return as \<open>\t\<close>, \<open>\n\<close>, \<open>\r\<close> and the other control characters as \<open>\xhh\<close>.
  Every other character is kept as it is.
\<close>

definition hex_digit :: "nat \<Rightarrow> char" where
  "hex_digit n = ''0123456789abcdef'' ! (n mod 16)"

definition repr_char :: "char \<Rightarrow> char \<Rightarrow> string" where
  "repr_char q c =
     (if c = q \<or> c = CHR 0x5C then [CHR 0x5C, c]
      else if c = CHR 0x09 then [CHR 0x5C, CHR ''t'']
      else if c = CHR 0x0A then [CHR 0x5C, CHR ''n'']
      else if c = CHR 0x0D then [CHR 0x5C, CHR ''r'']
      else if (of_char c :: nat) < 32 \<or> c = CHR 0x7F
        then [CHR 0x5C, CHR ''x'', hex_digit (of_char c div 16), hex_digit (of_char c)]
      else [c])"

definition py_repr :: "string \<Rightarrow> string" where
  "py_repr s =
     (let q = (if CHR 0x27 \<in> set s \<and> CHR 0x22 \<notin> set s then CHR 0x22 else CHR 0x27)
      in [q] @ concat (map (repr_char q) s) @ [q])"

text \<open>\<open>str(e)\<close>: a \<open>KeyError\<close> prints the repr of its key, the others their message.\<close>

fun str_exc :: "exc \<Rightarrow> string" where
  "str_exc (TypeError m) = m"
| "str_exc (KeyError k) = py_repr k"
| "str_exc (AttributeError m) = m"
| "str_exc (OtherError m) = m"

text \<open>The name Python prints for the type of a value.\<close>

fun type_name :: "pyval \<Rightarrow> string" where
  "type_name PNone = ''NoneType''"
| "type_name (PBool _) = ''bool''"
| "type_name (PInt _) = ''int''"
| "type_name (PStr _) = ''str''"
| "type_name (PList _) = ''list''"
| "type_name (PDict _) = ''dict''"

text \<open>\<open>len(v)\<close>: strings, lists and dicts have a length, the other values raise.\<close>

fun py_len :: "pyval \<Rightarrow> exc + nat" where
  "py_len (PStr s) = Inr (length s)"
| "py_len (PList xs) = Inr (length xs)"
| "py_len (PDict d) = Inr (length d)"
| "py_len v = Inl (TypeError (''object of type '' @ [CHR 0x27] @ type_name v @ [CHR 0x27] @ '' has no len()''))"

text \<open>Truth value of a Python value, as \<open>if v:\<close> tests it.\<close>

fun truthy :: "pyval \<Rightarrow> bool" where
  "truthy PNone = False"
| "truthy (PBool b) = b"
| "truthy (PInt i) = (i \<noteq> 0)"
| "truthy (PStr s) = (s \<noteq> [])"
| "truthy (PList xs) = (xs \<noteq> [])"
| "truthy (PDict d) = (d \<noteq> [])"

text \<open>\<open>d.get(k, default)\<close> and \<open>d.get(k)\<close>, whose default is \<open>None\<close>.\<close>

definition get_default :: "pydict \<Rightarrow> string \<Rightarrow> pyval \<Rightarrow> pyval" where
  "get_default d k dflt = (case map_of d k of None \<Rightarrow> dflt | Some v \<Rightarrow> v)"

definition get :: "pydict \<Rightarrow> string \<Rightarrow> pyval" where
  "get d k = get_default d k PNone"

section \<open>framework.py: targets, result envelopes, modules\<close>

record ScanTarget =
  domain :: string
  ip_addresses :: "string list option"
  subdomains :: "string list option"
  timestamp :: string

text \<open>
  \<open>ScanResult\<close>. The payload \<open>data\<close> is a dict from strings to values of a type \<open>'v\<close>
  the framework never looks into. The default of \<open>timestamp\<close> is computed once, when
  the class is defined, and is a parameter \<open>now\<close> of the constructors below; the default
  of the target's \<open>timestamp\<close> is computed when its own class is defined, and is the
  parameter of \<open>new_target\<close>.
\<close>

record 'v ScanResult =
  target :: ScanTarget
  "module_name" :: string
  data :: "(string \<times> 'v) list"
  result_timestamp :: string
  status :: string
  error :: "string option"

text \<open>\<open>ScanTarget(domain=domain)\<close>: the other fields take their defaults.\<close>

definition new_target :: "string \<Rightarrow> string \<Rightarrow> ScanTarget" where
  "new_target tnow dname =
     \<lparr>domain = dname, ip_addresses = None, subdomains = None, timestamp = tnow\<rparr>"

text \<open>The two ways a module builds its result: the last line of the \<open>try\<close> block, and the handler.\<close>

definition success_result :: "string \<Rightarrow> ScanTarget \<Rightarrow> string \<Rightarrow> (string \<times> 'v) list \<Rightarrow> 'v ScanResult" where
  "success_result now t name d =
     \<lparr>target = t, module_name = name, data = d, result_timestamp = now,
      status = ''success'', error = None\<rparr>"

definition error_result :: "string \<Rightarrow> ScanTarget \<Rightarrow> string \<Rightarrow> exc \<Rightarrow> 'v ScanResult" where
  "error_result now t name e =
     \<lparr>target = t, module_name = name, data = [], result_timestamp = now,
      status = ''error'', error = Some (str_exc e)\<rparr>"

text \<open>The four module classes the framework knows, and their \<open>module_name\<close> property.\<close>

datatype module_class =
  PassiveReconModule | ActiveReconModule | SocialMediaModule | DarkWebModule

fun name_of :: "module_class \<Rightarrow> string" where
  "name_of PassiveReconModule = ''passive_recon''"
| "name_of ActiveReconModule = ''active_recon''"
| "name_of SocialMediaModule = ''social_media''"
| "name_of DarkWebModule = ''dark_web''"

text \<open>
  What the body of a module's \<open>try\<close> block does depends on the network: it either
  builds the payload or raises. The outcome of every module on a target is a parameter
  \<open>ex\<close> of the model.
\<close>

type_synonym 'v execution = "module_class \<Rightarrow> ScanTarget \<Rightarrow> exc + (string \<times> 'v) list"

text \<open>\<open>BaseModule.run\<close> as every module class implements it: \<open>try ... except Exception\<close>.\<close>

definition run :: "string \<Rightarrow> 'v execution \<Rightarrow> module_class \<Rightarrow> ScanTarget \<Rightarrow> 'v ScanResult" where
  "run now ex m t =
     (case ex m t of
        Inr d \<Rightarrow> success_result now t (name_of m) d
      | Inl e \<Rightarrow> error_result now t (name_of m) e)"

subsection \<open>\<open>OSINTFramework.__init__\<close>: the enabled modules\<close>

text \<open>\<open>config['modules'][name]\<close>: subscripting raises \<open>KeyError\<close> on a missing key.\<close>

definition subscript :: "pydict \<Rightarrow> string \<Rightarrow> exc + pyval" where
  "subscript d k = (case map_of d k of None \<Rightarrow> Inl (KeyError k) | Some v \<Rightarrow> Inr v)"

text \<open>One \<open>if config['modules'][name]: self.modules.append(...)\<close> statement.\<close>

definition append_if_enabled ::
  "pydict \<Rightarrow> module_class \<Rightarrow> module_class list \<Rightarrow> exc + module_class list" where
  "append_if_enabled cfg m ms =
     (case subscript cfg (name_of m) of
        Inl e \<Rightarrow> Inl e
      | Inr v \<Rightarrow> Inr (if truthy v then ms @ [m] else ms))"

text \<open>
  The four statements of the constructor, in the order of the source. The constructor
  first loads the configuration file and creates the results directory; the model starts
  from the dict \<open>config['modules']\<close>.
\<close>

definition init_modules :: "pydict \<Rightarrow> exc + module_class list" where
  "init_modules cfg =
     (case append_if_enabled cfg PassiveReconModule [] of Inl e \<Rightarrow> Inl e | Inr ms1 \<Rightarrow>
      case append_if_enabled cfg ActiveReconModule ms1 of Inl e \<Rightarrow> Inl e | Inr ms2 \<Rightarrow>
      case append_if_enabled cfg SocialMediaModule ms2 of Inl e \<Rightarrow> Inl e | Inr ms3 \<Rightarrow>
      append_if_enabled cfg DarkWebModule ms3)"

subsection \<open>\<open>OSINTFramework.scan\<close> and \<open>ResultsManager.save_results\<close>\<close>

text \<open>The \<open>for module in self.modules\<close> loop, with the list \<open>results\<close> it appends to.\<close>

fun scan_loop ::
  "string \<Rightarrow> 'v execution \<Rightarrow> ScanTarget \<Rightarrow> module_class list \<Rightarrow> 'v ScanResult list \<Rightarrow> 'v ScanResult list" where
  "scan_loop now ex t [] results = results"
| "scan_loop now ex t (m # ms) results = scan_loop now ex t ms (results @ [run now ex m t])"

text \<open>The dict \<open>output\<close> that \<open>save_results\<close> writes to the file it names.\<close>

record 'v report =
  report_target :: ScanTarget
  scan_results :: "'v ScanResult list"
  metadata :: "(string \<times> string) list"

definition save_results ::
  "string \<Rightarrow> string \<Rightarrow> 'v ScanResult list \<Rightarrow> ScanTarget \<Rightarrow> string \<times> 'v report" where
  "save_results results_dir stamp results t =
     (results_dir @ ''/osint_'' @ domain t @ ''_'' @ stamp @ ''.json'',
      \<lparr>report_target = t, scan_results = results,
       metadata = [(''timestamp'', stamp), (''framework_version'', ''1.0.0'')]\<rparr>)"

text \<open>
  \<open>scan\<close> returns the name of the file; the model returns with it the report written
  there. \<open>results_dir\<close> comes from the configuration, \<open>tnow\<close> and \<open>now\<close> are the times
  at which the two classes were defined and \<open>stamp\<close> is the time of saving.
\<close>

definition scan ::
  "string \<Rightarrow> string \<Rightarrow> string \<Rightarrow> string \<Rightarrow> 'v execution \<Rightarrow> module_class list \<Rightarrow> string \<Rightarrow> string \<times> 'v report" where
  "scan results_dir tnow now stamp ex modules dname =
     (let t = new_target tnow dname;
          results = scan_loop now ex t modules []
      in save_results results_dir stamp results t)"

section \<open>modules/dark.py: analysis of the findings\<close>

text \<open>
  An event of the timeline is a dict of which the module reads the entry \<open>'date'\<close>, a
  string when it is there; \<open>detail\<close> holds the other entries.
\<close>

record event =
  date :: "string option"
  detail :: pydict

text \<open>
  \<open>_analyze_findings\<close> calls \<open>_events_from_breaches\<close>, \<open>_events_from_pastes\<close> and
  \<open>_events_from_forums\<close>, which the module does not define. They are parameters of the
  model: each returns a list of events or raises (the call of a missing method raises
  \<open>AttributeError\<close>).
\<close>

record helpers =
  events_from_breaches :: "pydict \<Rightarrow> exc + event list"
  events_from_pastes :: "pydict \<Rightarrow> exc + event list"
  events_from_forums :: "pydict \<Rightarrow> exc + event list"

text \<open>
  The helpers as the module has them: the three methods are not defined, so each call
  raises \<open>AttributeError\<close>.
\<close>

definition missing_methods :: helpers where
  "missing_methods =
     \<lparr>events_from_breaches = (\<lambda>d. Inl (AttributeError
         ([CHR 0x27] @ ''DarkWebModule'' @ [CHR 0x27] @ '' object has no attribute '' @ [CHR 0x27] @ ''_events_from_breaches'' @ [CHR 0x27]))),
      events_from_pastes = (\<lambda>d. Inl (AttributeError
         ([CHR 0x27] @ ''DarkWebModule'' @ [CHR 0x27] @ '' object has no attribute '' @ [CHR 0x27] @ ''_events_from_pastes'' @ [CHR 0x27]))),
      events_from_forums = (\<lambda>d. Inl (AttributeError
         ([CHR 0x27] @ ''DarkWebModule'' @ [CHR 0x27] @ '' object has no attribute '' @ [CHR 0x27] @ ''_events_from_forums'' @ [CHR 0x27])))\<rparr>"

text \<open>The dict \<open>analysis\<close>; the key \<open>'error'\<close> is set by the handler only.\<close>

record analysis =
  risk_score :: int
  summary :: "pyval list"
  recommendations :: "string list"
  timeline :: "event list"
  statistics :: pydict
  analysis_error :: "string option"

definition initial_analysis :: analysis where
  "initial_analysis =
     \<lparr>risk_score = 0, summary = [], recommendations = [], timeline = [],
      statistics = [], analysis_error = None\<rparr>"

text \<open>The dict \<open>risk_factors\<close>: four lengths, taken in this order, each with its weight.\<close>

definition risk_factors :: "pydict \<Rightarrow> pydict \<Rightarrow> pydict \<Rightarrow> pydict \<Rightarrow> exc + (string \<times> int) list" where
  "risk_factors breach_data paste_data forum_data market_data =
     (case py_len (get_default breach_data ''known_breaches'' (PList [])) of Inl e \<Rightarrow> Inl e | Inr nb \<Rightarrow>
      case py_len (get_default paste_data ''recent_pastes'' (PList [])) of Inl e \<Rightarrow> Inl e | Inr np \<Rightarrow>
      case py_len (get_default forum_data ''mentions'' (PList [])) of Inl e \<Rightarrow> Inl e | Inr nf \<Rightarrow>
      case py_len (get_default market_data ''mentions'' (PList [])) of Inl e \<Rightarrow> Inl e | Inr nm \<Rightarrow>
      Inr [(''recent_breaches'', int nb * 10), (''paste_exposure'', int np * 5),
           (''forum_mentions'', int nf * 2), (''market_mentions'', int nm * 8)])"

text \<open>\<open>all_events\<close>, extended by the three helpers in turn.\<close>

definition all_events :: "helpers \<Rightarrow> pydict \<Rightarrow> pydict \<Rightarrow> pydict \<Rightarrow> exc + event list" where
  "all_events H breach_data paste_data forum_data =
     (case events_from_breaches H breach_data of Inl e \<Rightarrow> Inl e | Inr eb \<Rightarrow>
      case events_from_pastes H paste_data of Inl e \<Rightarrow> Inl e | Inr ep \<Rightarrow>
      case events_from_forums H forum_data of Inl e \<Rightarrow> Inl e | Inr ef \<Rightarrow>
      Inr (eb @ ep @ ef))"

text \<open>
  \<open>sorted(all_events, key=lambda x: x['date'], reverse=True)\<close>. Python first computes
  the key of every element, in list order, and a missing \<open>'date'\<close> raises \<open>KeyError\<close>;
  then it reverses the list, sorts it stably in ascending order and reverses the result.
  Strings are ordered as Python orders them, lexicographically by the codes of their
  characters.
\<close>

fun keyed :: "event list \<Rightarrow> exc + (string \<times> event) list" where
  "keyed [] = Inr []"
| "keyed (e # es) =
     (case date e of
        None \<Rightarrow> Inl (KeyError ''date'')
      | Some d \<Rightarrow> (case keyed es of Inl x \<Rightarrow> Inl x | Inr ks \<Rightarrow> Inr ((d, e) # ks)))"

definition sorted_reverse :: "event list \<Rightarrow> exc + event list" where
  "sorted_reverse evs =
     (case keyed evs of
        Inl x \<Rightarrow> Inl x
      | Inr ks \<Rightarrow> Inr (map snd (rev (sort_key fst (rev ks)))))"

subsection \<open>\<open>_calculate_exposure_trend\<close>\<close>

text \<open>\<open>months[month] = months.get(month, 0) + 1\<close> on a dict in insertion order.\<close>

fun bump :: "string \<Rightarrow> (string \<times> nat) list \<Rightarrow> (string \<times> nat) list" where
  "bump m [] = [(m, 1)]"
| "bump m ((k, c) # rest) = (if k = m then (k, c + 1) # rest else (k, c) # bump m rest)"

text \<open>The loop over the timeline; \<open>event['date'][:7]\<close> raises on an event with no date.\<close>

fun group_by_month :: "event list \<Rightarrow> (string \<times> nat) list \<Rightarrow> exc + (string \<times> nat) list" where
  "group_by_month [] months = Inr months"
| "group_by_month (e # es) months =
     (case date e of
        None \<Rightarrow> Inl (KeyError ''date'')
      | Some d \<Rightarrow> group_by_month es (bump (take 7 d) months))"

text \<open>
  \<open>sorted(months.items())\<close> orders the pairs lexicographically; \<open>xs[-3:]\<close> and \<open>xs[:-3]\<close>
  are the last three elements and the ones before them. The counts are far below
  \<open>2^52\<close>, where the product of an integer with the float \<open>1.5\<close> is exact, so the
  comparisons are made in the real numbers.
\<close>

definition calculate_exposure_trend :: "event list \<Rightarrow> string" where
  "calculate_exposure_trend tline =
     (if tline = [] then ''insufficient_data''
      else case group_by_month tline [] of
        Inl e \<Rightarrow> ''calculation_error''
      | Inr months \<Rightarrow>
          (let sorted_months = sort months in
           if length sorted_months < 2 then ''insufficient_data''
           else
             (let recent_events = sum_list (map snd (drop (length sorted_months - 3) sorted_months));
                  older_events = sum_list (map snd (take (length sorted_months - 3) sorted_months))
              in if real recent_events > real older_events * 1.5 then ''increasing''
                 else if real recent_events * 1.5 < real older_events then ''decreasing''
                 else ''stable'')))"

subsection \<open>\<open>_generate_recommendations\<close>\<close>

definition rec_assess :: string where
  "rec_assess = ''Implement regular security assessments and penetration testing''"

definition rec_incident :: string where
  "rec_incident = ''Review and update incident response procedures''"

definition rec_monitor :: string where
  "rec_monitor = ''Enhance monitoring of public data exposure''"

definition rec_dlp :: string where
  "rec_dlp = ''Implement data loss prevention (DLP) solutions''"

text \<open>The loop over the data sources, adding to the set \<open>recommendations\<close>.\<close>

fun recommend_loop :: "pydict list \<Rightarrow> string set \<Rightarrow> string set" where
  "recommend_loop [] recs = recs"
| "recommend_loop (source # rest) recs =
     (let recs1 = (if truthy (get source ''known_breaches'')
                   then insert rec_incident (insert rec_assess recs) else recs);
          recs2 = (if truthy (get source ''recent_pastes'') \<or> truthy (get source ''mentions'')
                   then insert rec_dlp (insert rec_monitor recs1) else recs1)
      in recommend_loop rest recs2)"

text \<open>\<open>sorted(list(recommendations))\<close>.\<close>

definition generate_recommendations :: "pydict list \<Rightarrow> string list" where
  "generate_recommendations data_sources = sorted_list_of_set (recommend_loop data_sources {})"

subsection \<open>\<open>_analyze_findings\<close>\<close>

text \<open>The dict \<open>statistics\<close>: three lengths and the trend of the timeline.\<close>

definition statistics_of :: "pydict \<Rightarrow> pydict \<Rightarrow> pydict \<Rightarrow> event list \<Rightarrow> exc + pydict" where
  "statistics_of breach_data paste_data forum_data tline =
     (case py_len (get_default breach_data ''known_breaches'' (PList [])) of Inl e \<Rightarrow> Inl e | Inr nb \<Rightarrow>
      case py_len (get_default paste_data ''recent_pastes'' (PList [])) of Inl e \<Rightarrow> Inl e | Inr np \<Rightarrow>
      case py_len (get_default forum_data ''mentions'' (PList [])) of Inl e \<Rightarrow> Inl e | Inr nf \<Rightarrow>
      Inr [(''total_breaches'', PInt (int nb)), (''total_pastes'', PInt (int np)),
           (''total_mentions'', PInt (int nf)),
           (''exposure_trend'', PStr (calculate_exposure_trend tline))])"

text \<open>
  The \<open>try\<close> block assigns the entries of \<open>analysis\<close> one after the other; an exception
  leaves the entries assigned so far and the handler adds \<open>'error'\<close>.
\<close>

definition handler :: "analysis \<Rightarrow> exc \<Rightarrow> analysis" where
  "handler a e = a\<lparr>analysis_error := Some (str_exc e)\<rparr>"

definition analyze_findings :: "helpers \<Rightarrow> pydict \<Rightarrow> pydict \<Rightarrow> pydict \<Rightarrow> pydict \<Rightarrow> analysis" where
  "analyze_findings H breach_data paste_data forum_data market_data =
     (case risk_factors breach_data paste_data forum_data market_data of
        Inl e \<Rightarrow> handler initial_analysis e
      | Inr rf \<Rightarrow>
          (let a1 = initial_analysis\<lparr>risk_score := min (sum_list (map snd rf)) 100\<rparr> in
           case all_events H breach_data paste_data forum_data of
             Inl e \<Rightarrow> handler a1 e
           | Inr evs \<Rightarrow>
               (case sorted_reverse evs of
                  Inl e \<Rightarrow> handler a1 e
                | Inr tline \<Rightarrow>
                    (let a2 = a1\<lparr>timeline := tline\<rparr>;
                         a3 = a2\<lparr>recommendations :=
                                 generate_recommendations [breach_data, paste_data, forum_data, market_data]\<rparr>
                     in case statistics_of breach_data paste_data forum_data tline of
                          Inl e \<Rightarrow> handler a3 e
                        | Inr st \<Rightarrow> a3\<lparr>statistics := st\<rparr>))))"

subsection \<open>\<open>DarkWebModule.run\<close>\<close>

text \<open>
  The payload of the module holds the four dicts of findings and the analysis. The four
  monitoring tasks talk to the network; what each returns or raises is a parameter, and
  they are awaited in the order breaches, pastes, forums, markets.
\<close>

datatype dark_value = Findings pydict | Analysis analysis

definition dark_body ::
  "helpers \<Rightarrow> exc + pydict \<Rightarrow> exc + pydict \<Rightarrow> exc + pydict \<Rightarrow> exc + pydict \<Rightarrow> exc + (string \<times> dark_value) list" where
  "dark_body H breach_task paste_task forum_task market_task =
     (case breach_task of Inl e \<Rightarrow> Inl e | Inr breach_data \<Rightarrow>
      case paste_task of Inl e \<Rightarrow> Inl e | Inr paste_data \<Rightarrow>
      case forum_task of Inl e \<Rightarrow> Inl e | Inr forum_data \<Rightarrow>
      case market_task of Inl e \<Rightarrow> Inl e | Inr market_data \<Rightarrow>
      Inr [(''breaches'', Findings breach_data), (''pastes'', Findings paste_data),
           (''forum_mentions'', Findings forum_data), (''market_mentions'', Findings market_data),
           (''analysis'', Analysis (analyze_findings H breach_data paste_data forum_data market_data))])"

definition dark_run ::
  "string \<Rightarrow> helpers \<Rightarrow> exc + pydict \<Rightarrow> exc + pydict \<Rightarrow> exc + pydict \<Rightarrow> exc + pydict \<Rightarrow> ScanTarget \<Rightarrow> dark_value ScanResult" where
  "dark_run now H breach_task paste_task forum_task market_task t =
     (case dark_body H breach_task paste_task forum_task market_task of
        Inr d \<Rightarrow> success_result now t ''dark_web'' d
      | Inl e \<Rightarrow> error_result now t ''dark_web'' e)"

section \<open>Definitions written from the specification\<close>

text \<open>
  The month buckets of a list of dates in ascending order, and the number of events in
  the most recent three buckets and in all earlier ones, written from the words of the
  specification; the theorems below compare them with what the code computes.
\<close>

definition month_buckets :: "string list \<Rightarrow> string list" where
  "month_buckets ds = sorted_list_of_set (set (map (take 7) ds))"

definition spec_recent :: "string list \<Rightarrow> nat" where
  "spec_recent ds =
     length (filter (\<lambda>d. take 7 d \<in> set (drop (length (month_buckets ds) - 3) (month_buckets ds))) ds)"

definition spec_older :: "string list \<Rightarrow> nat" where
  "spec_older ds =
     length (filter (\<lambda>d. take 7 d \<in> set (take (length (month_buckets ds) - 3) (month_buckets ds))) ds)"

text \<open>
  The names of the enabled entries of a configuration in the order in which the
  configuration declares them, as the specification describes the registry's result.
\<close>

definition declared_enabled :: "pydict \<Rightarrow> string list" where
  "declared_enabled cfg = map fst (filter (\<lambda>kv. truthy (snd kv)) cfg)"

section \<open>Properties of the framework\<close>

lemma scan_loop_eq:
  "scan_loop now ex t ms acc = acc @ map (\<lambda>m. run now ex m t) ms"
  by (induction ms arbitrary: acc) simp_all

lemma scan_results_eq:
  "scan_results (snd (scan dir tnow now stamp ex ms dname)) =
     map (\<lambda>m. run now ex m (new_target tnow dname)) ms"
  by (simp add: scan_def save_results_def scan_loop_eq Let_def)

lemma module_name_run: "module_name (run now ex m t) = name_of m"
  by (simp add: run_def success_result_def error_result_def split: sum.split)

lemma run_Inl: "ex m t = Inl e \<Longrightarrow> run now ex m t = error_result now t (name_of m) e"
  by (simp add: run_def)

lemma run_Inr: "ex m t = Inr d \<Longrightarrow> run now ex m t = success_result now t (name_of m) d"
  by (simp add: run_def)

lemma run_cong: "ex' m t = ex m t \<Longrightarrow> run now ex' m t = run now ex m t"
  by (simp add: run_def)

lemma run_invariant:
  "(status (run now ex m t) = ''error'' \<longrightarrow> data (run now ex m t) = []) \<and>
   (status (run now ex m t) = ''success'' \<longrightarrow> error (run now ex m t) = None)"
  by (cases "ex m t") (simp_all add: run_def success_result_def error_result_def)

lemma dark_run_invariant:
  "(status (dark_run now H bt pt ft mt t) = ''error'' \<longrightarrow> data (dark_run now H bt pt ft mt t) = []) \<and>
   (status (dark_run now H bt pt ft mt t) = ''success'' \<longrightarrow> error (dark_run now H bt pt ft mt t) = None)"
  by (cases "dark_body H bt pt ft mt") (simp_all add: dark_run_def success_result_def error_result_def)

text \<open>
  C1. For every domain and every list of N enabled modules, whatever each of them
  returns or raises, the report that \<open>scan\<close> saves holds exactly N result envelopes: the
  envelope at each position is the one the module at that position produced, so the
  names of the envelopes are the names of the modules in the order of the list.
\<close>

theorem scan_one_envelope_per_module:
  "length (scan_results (snd (scan dir tnow now stamp ex ms dname))) = length ms \<and>
   map module_name (scan_results (snd (scan dir tnow now stamp ex ms dname))) = map name_of ms \<and>
   scan_results (snd (scan dir tnow now stamp ex ms dname)) =
     map (\<lambda>m. run now ex m (new_target tnow dname)) ms"
  by (simp add: scan_results_eq module_name_run comp_def)

text \<open>
  An instance: three modules of which the first returns and the other two raise give
  three envelopes in that order, the first a success and the others errors.
\<close>

theorem scan_one_envelope_per_module_witness:
  "map module_name
     (scan_results (snd (scan ''results'' ''t0'' ''t0'' ''t1''
        (\<lambda>m t. case m of
            PassiveReconModule \<Rightarrow> Inr [(''dns'', PList [PStr ''1.2.3.4''])]
          | ActiveReconModule \<Rightarrow> Inl (OtherError ''network down'')
          | _ \<Rightarrow> Inl (OtherError ''timeout''))
        [PassiveReconModule, ActiveReconModule, SocialMediaModule] ''example.com'')))
     = [''passive_recon'', ''active_recon'', ''social_media''] \<and>
   map status
     (scan_results (snd (scan ''results'' ''t0'' ''t0'' ''t1''
        (\<lambda>m t. case m of
            PassiveReconModule \<Rightarrow> Inr [(''dns'', PList [PStr ''1.2.3.4''])]
          | ActiveReconModule \<Rightarrow> Inl (OtherError ''network down'')
          | _ \<Rightarrow> Inl (OtherError ''timeout''))
        [PassiveReconModule, ActiveReconModule, SocialMediaModule] ''example.com'')))
     = [''success'', ''error'', ''error'']"
  using scan_one_envelope_per_module [of "''results''" "''t0''" "''t0''" "''t1''"
      "\<lambda>m t. case m of
            PassiveReconModule \<Rightarrow> Inr [(''dns'', PList [PStr ''1.2.3.4''])]
          | ActiveReconModule \<Rightarrow> Inl (OtherError ''network down'')
          | _ \<Rightarrow> Inl (OtherError ''timeout'')"
      "[PassiveReconModule, ActiveReconModule, SocialMediaModule]" "''example.com''"]
  by (simp add: run_def success_result_def error_result_def)

text \<open>
  C2. When the body of the module at position \<open>i\<close> raises an exception, its envelope in
  the report is the error envelope with the message of that exception; the envelope at
  every position depends on the outcome of the module at that position only, so the
  envelopes of the other modules are what they would be without the failure; and the
  report still holds one envelope per module. The dark web module of
  \<open>modules/dark.py\<close> likewise turns an exception of its body into an error envelope.
\<close>

theorem probe_failure_is_absorbed:
  assumes "i < length ms" and "ex (ms ! i) (new_target tnow dname) = Inl e"
  shows "scan_results (snd (scan dir tnow now stamp ex ms dname)) ! i =
           error_result now (new_target tnow dname) (name_of (ms ! i)) e \<and>
         status (scan_results (snd (scan dir tnow now stamp ex ms dname)) ! i) = ''error'' \<and>
         error (scan_results (snd (scan dir tnow now stamp ex ms dname)) ! i) = Some (str_exc e) \<and>
         (\<forall>ex' j. j < length ms \<and> ex' (ms ! j) (new_target tnow dname) = ex (ms ! j) (new_target tnow dname) \<longrightarrow>
            scan_results (snd (scan dir tnow now stamp ex' ms dname)) ! j =
            scan_results (snd (scan dir tnow now stamp ex ms dname)) ! j) \<and>
         length (scan_results (snd (scan dir tnow now stamp ex ms dname))) = length ms \<and>
         (\<forall>H bt pt ft mt t e'. dark_body H bt pt ft mt = Inl e' \<longrightarrow>
            dark_run now H bt pt ft mt t = error_result now t ''dark_web'' e')"
proof -
  let ?t = "new_target tnow dname"
  have at: "\<And>x j. j < length ms \<Longrightarrow>
      scan_results (snd (scan dir tnow now stamp x ms dname)) ! j = run now x (ms ! j) ?t"
    by (simp add: scan_results_eq)
  have here: "scan_results (snd (scan dir tnow now stamp ex ms dname)) ! i =
      error_result now ?t (name_of (ms ! i)) e"
    using assms by (simp add: at run_Inl)
  have others: "\<forall>ex' j. j < length ms \<and> ex' (ms ! j) ?t = ex (ms ! j) ?t \<longrightarrow>
      scan_results (snd (scan dir tnow now stamp ex' ms dname)) ! j =
      scan_results (snd (scan dir tnow now stamp ex ms dname)) ! j"
    by (auto simp: at intro: run_cong)
  have full: "length (scan_results (snd (scan dir tnow now stamp ex ms dname))) = length ms"
    by (simp add: scan_results_eq)
  have dark: "\<forall>H bt pt ft mt t e'. dark_body H bt pt ft mt = Inl e' \<longrightarrow>
      dark_run now H bt pt ft mt t = error_result now t ''dark_web'' e'"
    by (simp add: dark_run_def)
  have st: "status (scan_results (snd (scan dir tnow now stamp ex ms dname)) ! i) = ''error''"
    unfolding here by (simp add: error_result_def)
  have er: "error (scan_results (snd (scan dir tnow now stamp ex ms dname)) ! i) = Some (str_exc e)"
    unfolding here by (simp add: error_result_def)
  show ?thesis
    by (intro conjI) (rule here st er others full dark)+
qed

theorem probe_failure_is_absorbed_witness:
  "(1::nat) < length [PassiveReconModule, ActiveReconModule, SocialMediaModule] \<and>
   (case [PassiveReconModule, ActiveReconModule, SocialMediaModule] ! 1 of
      PassiveReconModule \<Rightarrow> Inr [(''dns'', PList [PStr ''1.2.3.4''])]
    | ActiveReconModule \<Rightarrow> Inl (OtherError ''network down'')
    | _ \<Rightarrow> Inr []) = Inl (OtherError ''network down'') \<and>
   error (scan_results (snd (scan ''results'' ''t0'' ''t0'' ''t1''
        (\<lambda>m t. case m of
            PassiveReconModule \<Rightarrow> Inr [(''dns'', PList [PStr ''1.2.3.4''])]
          | ActiveReconModule \<Rightarrow> Inl (OtherError ''network down'')
          | _ \<Rightarrow> Inr [])
        [PassiveReconModule, ActiveReconModule, SocialMediaModule] ''example.com'')) ! 1)
     = Some ''network down''"
proof -
  let ?ms = "[PassiveReconModule, ActiveReconModule, SocialMediaModule]"
  let ?ex = "\<lambda>(m::module_class) (t::ScanTarget). case m of
            PassiveReconModule \<Rightarrow> Inr [(''dns'', PList [PStr ''1.2.3.4''])]
          | ActiveReconModule \<Rightarrow> Inl (OtherError ''network down'')
          | _ \<Rightarrow> Inr []"
  have h1: "(1::nat) < length ?ms" by simp
  have h2: "?ex (?ms ! 1) (new_target ''t0'' ''example.com'') = Inl (OtherError ''network down'')"
    by simp
  note T = probe_failure_is_absorbed [of 1 ?ms ?ex "''t0''" "''example.com''"
      "OtherError ''network down''" "''results''" "''t0''" "''t1''", OF h1 h2]
  have "error (scan_results (snd (scan ''results'' ''t0'' ''t0'' ''t1'' ?ex ?ms ''example.com'')) ! 1)
     = Some (str_exc (OtherError ''network down''))"
    by (rule T [THEN conjunct2, THEN conjunct2, THEN conjunct1])
  then have c: "error (scan_results (snd (scan ''results'' ''t0'' ''t0'' ''t1'' ?ex ?ms ''example.com'')) ! 1)
     = Some ''network down''" by simp
  have h2': "(case ?ms ! 1 of
      PassiveReconModule \<Rightarrow> Inr [(''dns'', PList [PStr ''1.2.3.4''])]
    | ActiveReconModule \<Rightarrow> Inl (OtherError ''network down'')
    | _ \<Rightarrow> Inr []) = (Inl (OtherError ''network down'') :: exc + (string \<times> pyval) list)" by simp
  show ?thesis by (intro conjI) (rule h1 h2' c)+
qed

text \<open>
  C6. Every result envelope that a module's \<open>run\<close> produces, in the framework and in
  the dark web module, and so every envelope of a saved report, has an empty payload
  when its status is \<open>error\<close> and no error message when its status is \<open>success\<close>.
\<close>

theorem envelope_invariant:
  "(status (run now ex m t) = ''error'' \<longrightarrow> data (run now ex m t) = []) \<and>
   (status (run now ex m t) = ''success'' \<longrightarrow> error (run now ex m t) = None) \<and>
   (status (dark_run now H bt pt ft mt t) = ''error'' \<longrightarrow> data (dark_run now H bt pt ft mt t) = []) \<and>
   (status (dark_run now H bt pt ft mt t) = ''success'' \<longrightarrow> error (dark_run now H bt pt ft mt t) = None) \<and>
   (\<forall>r \<in> set (scan_results (snd (scan dir tnow now stamp ex ms dname))).
      (status r = ''error'' \<longrightarrow> data r = []) \<and> (status r = ''success'' \<longrightarrow> error r = None))"
proof -
  have all: "\<forall>r \<in> set (scan_results (snd (scan dir tnow now stamp ex ms dname))).
      (status r = ''error'' \<longrightarrow> data r = []) \<and> (status r = ''success'' \<longrightarrow> error r = None)"
  proof
    fix r assume "r \<in> set (scan_results (snd (scan dir tnow now stamp ex ms dname)))"
    then obtain m' where r: "r = run now ex m' (new_target tnow dname)"
      unfolding scan_results_eq by auto
    show "(status r = ''error'' \<longrightarrow> data r = []) \<and> (status r = ''success'' \<longrightarrow> error r = None)"
      unfolding r by (rule run_invariant)
  qed
  note a = run_invariant [of now ex m t]
  note b = dark_run_invariant [of now H bt pt ft mt t]
  show ?thesis
    by (intro conjI) (rule a [THEN conjunct1] a [THEN conjunct2] b [THEN conjunct1] b [THEN conjunct2] all)+
qed

theorem envelope_invariant_witness:
  "status (run ''t0'' (\<lambda>m t. Inl (OtherError ''network down'')) ActiveReconModule
             (new_target ''t0'' ''example.com'') :: pyval ScanResult) = ''error'' \<and>
   data (run ''t0'' (\<lambda>m t. Inl (OtherError ''network down'')) ActiveReconModule
             (new_target ''t0'' ''example.com'') :: pyval ScanResult) = [] \<and>
   status (run ''t0'' (\<lambda>m t. Inr [(''dns'', PNone)]) PassiveReconModule
             (new_target ''t0'' ''example.com'')) = ''success'' \<and>
   error (run ''t0'' (\<lambda>m t. Inr [(''dns'', PNone)]) PassiveReconModule
             (new_target ''t0'' ''example.com'')) = None"
proof -
  let ?t = "new_target ''t0'' ''example.com''"
  let ?bad = "\<lambda>(m::module_class) (t::ScanTarget). (Inl (OtherError ''network down'') :: exc + (string \<times> pyval) list)"
  let ?good = "\<lambda>(m::module_class) (t::ScanTarget). (Inr [(''dns'', PNone)] :: exc + (string \<times> pyval) list)"
  have s1: "status (run ''t0'' ?bad ActiveReconModule ?t) = ''error''"
    by (simp add: run_def error_result_def)
  have s2: "status (run ''t0'' ?good PassiveReconModule ?t) = ''success''"
    by (simp add: run_def success_result_def)
  note A = envelope_invariant [of "''t0''" ?bad ActiveReconModule ?t, THEN conjunct1, rule_format, OF s1]
  note B = envelope_invariant [of "''t0''" ?good PassiveReconModule ?t, THEN conjunct2, THEN conjunct1, rule_format, OF s2]
  show ?thesis by (intro conjI) (rule s1 s2 A B)+
qed

section \<open>The enabled modules\<close>

lemma init_modules_cong:
  "(\<forall>m. map_of cfg' (name_of m) = map_of cfg (name_of m)) \<Longrightarrow> init_modules cfg' = init_modules cfg"
proof -
  assume a: "\<forall>m. map_of cfg' (name_of m) = map_of cfg (name_of m)"
  have "\<And>m ms. append_if_enabled cfg' m ms = append_if_enabled cfg m ms"
    by (simp add: append_if_enabled_def subscript_def a)
  then show ?thesis
    by (simp add: init_modules_def cong: sum.case_cong)
qed

lemma init_modules_present:
  assumes "\<forall>m. map_of cfg (name_of m) \<noteq> None"
  shows "init_modules cfg =
     Inr (filter (\<lambda>m. truthy (get cfg (name_of m)))
            [PassiveReconModule, ActiveReconModule, SocialMediaModule, DarkWebModule])"
proof -
  obtain v1 v2 v3 v4 where
    "map_of cfg ''passive_recon'' = Some v1" "map_of cfg ''active_recon'' = Some v2"
    "map_of cfg ''social_media'' = Some v3" "map_of cfg ''dark_web'' = Some v4"
    using assms [rule_format, of PassiveReconModule] assms [rule_format, of ActiveReconModule]
      assms [rule_format, of SocialMediaModule] assms [rule_format, of DarkWebModule]
    by auto
  then show ?thesis
    by (simp add: init_modules_def append_if_enabled_def subscript_def get_def get_default_def)
qed

lemma init_modules_missing:
  assumes "map_of cfg (name_of m) = None"
  shows "\<exists>m'. map_of cfg (name_of m') = None \<and> init_modules cfg = Inl (KeyError (name_of m'))"
proof -
  have "init_modules cfg = Inl (KeyError ''passive_recon'') \<and> map_of cfg ''passive_recon'' = None
      \<or> init_modules cfg = Inl (KeyError ''active_recon'') \<and> map_of cfg ''active_recon'' = None
      \<or> init_modules cfg = Inl (KeyError ''social_media'') \<and> map_of cfg ''social_media'' = None
      \<or> init_modules cfg = Inl (KeyError ''dark_web'') \<and> map_of cfg ''dark_web'' = None"
    using assms
    by (cases m) (auto simp: init_modules_def append_if_enabled_def subscript_def split: option.splits)
  then show ?thesis
    by (metis name_of.simps)
qed

text \<open>
  C3, as the specification states it, fails: the constructor tests the four names it
  knows in the order of its own statements, so a configuration that declares
  \<open>active_recon\<close> before \<open>passive_recon\<close> (the order in which the default configuration is
  written to its file) still gives the passive module first; and an entry whose name has
  no implementation is not an error.
\<close>

theorem init_modules_declaration_order_counterexample:
  "init_modules [(''active_recon'', PBool True), (''dark_web'', PBool False),
                 (''passive_recon'', PBool True), (''social_media'', PBool True)]
     = Inr [PassiveReconModule, ActiveReconModule, SocialMediaModule] \<and>
   map name_of [PassiveReconModule, ActiveReconModule, SocialMediaModule]
     \<noteq> declared_enabled [(''active_recon'', PBool True), (''dark_web'', PBool False),
                 (''passive_recon'', PBool True), (''social_media'', PBool True)] \<and>
   init_modules [(''no_such_probe'', PBool True), (''active_recon'', PBool True), (''dark_web'', PBool False),
                 (''passive_recon'', PBool True), (''social_media'', PBool True)]
     = Inr [PassiveReconModule, ActiveReconModule, SocialMediaModule]"
  by (simp add: init_modules_def append_if_enabled_def subscript_def declared_enabled_def)

text \<open>
  C3, amended. When the configuration has an entry for each of the four names the
  constructor knows, the modules are the enabled ones among passive_recon, active_recon,
  social_media, dark_web in this fixed order; the result depends on these four entries
  only, so entries with other names are ignored; and when one of the four names is
  missing, the constructor fails with a \<open>KeyError\<close> for a missing name and builds no list.
\<close>

theorem init_modules_fixed_order:
  "((\<forall>m. map_of cfg (name_of m) \<noteq> None) \<longrightarrow>
      init_modules cfg =
        Inr (filter (\<lambda>m. truthy (get cfg (name_of m)))
               [PassiveReconModule, ActiveReconModule, SocialMediaModule, DarkWebModule])) \<and>
   ((\<forall>m. map_of cfg' (name_of m) = map_of cfg (name_of m)) \<longrightarrow> init_modules cfg' = init_modules cfg) \<and>
   (map_of cfg (name_of m) = None \<longrightarrow>
      (\<exists>m'. map_of cfg (name_of m') = None \<and> init_modules cfg = Inl (KeyError (name_of m'))))"
  using init_modules_present [of cfg] init_modules_cong [of cfg' cfg] init_modules_missing [of cfg m]
  by blast

theorem init_modules_fixed_order_witness:
  "init_modules [(''active_recon'', PBool True), (''dark_web'', PBool False),
                 (''passive_recon'', PBool True), (''social_media'', PBool True)]
     = Inr [PassiveReconModule, ActiveReconModule, SocialMediaModule] \<and>
   init_modules [(''no_such_probe'', PBool True), (''active_recon'', PBool True), (''dark_web'', PBool False),
                 (''passive_recon'', PBool True), (''social_media'', PBool True)]
     = init_modules [(''active_recon'', PBool True), (''dark_web'', PBool False),
                 (''passive_recon'', PBool True), (''social_media'', PBool True)] \<and>
   (\<exists>m'. map_of [(''passive_recon'', PBool True)] (name_of m') = None \<and>
      init_modules [(''passive_recon'', PBool True)] = Inl (KeyError (name_of m')))"
proof -
  let ?cfg = "[(''active_recon'', PBool True), (''dark_web'', PBool False),
                 (''passive_recon'', PBool True), (''social_media'', PBool True)]"
  let ?cfg' = "(''no_such_probe'', PBool True) # ?cfg"
  let ?short = "[(''passive_recon'', PBool True)]"
  have present: "\<forall>m. map_of ?cfg (name_of m) \<noteq> None"
  proof
    fix m show "map_of ?cfg (name_of m) \<noteq> None" by (cases m) simp_all
  qed
  have same: "\<forall>m. map_of ?cfg' (name_of m) = map_of ?cfg (name_of m)"
  proof
    fix m show "map_of ?cfg' (name_of m) = map_of ?cfg (name_of m)" by (cases m) simp_all
  qed
  have missing: "map_of ?short (name_of ActiveReconModule) = None" by simp
  note T = init_modules_fixed_order [of ?cfg ?cfg' ActiveReconModule]
  note U = init_modules_fixed_order [of ?short ?short ActiveReconModule]
  have a: "init_modules ?cfg =
        Inr (filter (\<lambda>m. truthy (get ?cfg (name_of m)))
               [PassiveReconModule, ActiveReconModule, SocialMediaModule, DarkWebModule])"
    using T present by blast
  have a': "init_modules ?cfg = Inr [PassiveReconModule, ActiveReconModule, SocialMediaModule]"
    unfolding a by (simp add: get_def get_default_def)
  have b: "init_modules ?cfg' = init_modules ?cfg"
    using T same by blast
  have c: "\<exists>m'. map_of ?short (name_of m') = None \<and> init_modules ?short = Inl (KeyError (name_of m'))"
    using U missing by blast
  show ?thesis by (intro conjI) (rule a' b c)+
qed

section \<open>The risk score\<close>

lemma risk_score_analyze:
  "risk_score (analyze_findings H b p f m) =
     (case risk_factors b p f m of Inl e \<Rightarrow> 0 | Inr rf \<Rightarrow> min (sum_list (map snd rf)) 100)"
  by (simp add: analyze_findings_def handler_def initial_analysis_def Let_def split: sum.splits)

lemma risk_factors_Inr:
  assumes "py_len (get_default b ''known_breaches'' (PList [])) = Inr nb"
    and "py_len (get_default p ''recent_pastes'' (PList [])) = Inr np"
    and "py_len (get_default f ''mentions'' (PList [])) = Inr nf"
    and "py_len (get_default m ''mentions'' (PList [])) = Inr nm"
  shows "risk_factors b p f m =
     Inr [(''recent_breaches'', int nb * 10), (''paste_exposure'', int np * 5),
          (''forum_mentions'', int nf * 2), (''market_mentions'', int nm * 8)]"
  using assms by (simp add: risk_factors_def)

lemma risk_factors_nonneg:
  "risk_factors b p f m = Inr rf \<Longrightarrow> 0 \<le> sum_list (map snd rf)"
  by (auto simp: risk_factors_def split: sum.splits)

lemma risk_factors_handler:
  "risk_factors b p f m = Inl e \<Longrightarrow> analyze_findings H b p f m = handler initial_analysis e"
  by (simp add: analyze_findings_def)

lemma get_default_absent: "map_of d k = None \<Longrightarrow> get_default d k v = v"
  by (simp add: get_default_def)

lemma get_default_Cons_absent:
  "map_of d k = None \<Longrightarrow> get_default ((k, v) # d) k' v = get_default d k' v"
  by (simp add: get_default_def)

text \<open>
  C5. For every input of \<open>_analyze_findings\<close> the risk score lies between 0 and 100.
  When the four indicator fields have a length it is the weighted sum of the numbers of
  known breaches (10), recent pastes (5), forum mentions (2) and market mentions (8),
  cut at 100; and it is 0 when the four dicts of findings are empty.
\<close>

theorem risk_score_in_range:
  "0 \<le> risk_score (analyze_findings H b p f m) \<and>
   risk_score (analyze_findings H b p f m) \<le> 100 \<and>
   (py_len (get_default b ''known_breaches'' (PList [])) = Inr nb \<and>
    py_len (get_default p ''recent_pastes'' (PList [])) = Inr np \<and>
    py_len (get_default f ''mentions'' (PList [])) = Inr nf \<and>
    py_len (get_default m ''mentions'' (PList [])) = Inr nm \<longrightarrow>
      risk_score (analyze_findings H b p f m) =
        min (int nb * 10 + int np * 5 + int nf * 2 + int nm * 8) 100) \<and>
   risk_score (analyze_findings H [] [] [] []) = 0"
proof -
  have lo: "0 \<le> risk_score (analyze_findings H b p f m)"
    using risk_factors_nonneg [of b p f m]
    by (cases "risk_factors b p f m") (simp_all add: risk_score_analyze)
  have hi: "risk_score (analyze_findings H b p f m) \<le> 100"
    by (cases "risk_factors b p f m") (simp_all add: risk_score_analyze)
  have sum: "py_len (get_default b ''known_breaches'' (PList [])) = Inr nb \<and>
    py_len (get_default p ''recent_pastes'' (PList [])) = Inr np \<and>
    py_len (get_default f ''mentions'' (PList [])) = Inr nf \<and>
    py_len (get_default m ''mentions'' (PList [])) = Inr nm \<longrightarrow>
      risk_score (analyze_findings H b p f m) =
        min (int nb * 10 + int np * 5 + int nf * 2 + int nm * 8) 100"
    by (simp add: risk_score_analyze risk_factors_Inr add.assoc)
  have empty: "risk_score (analyze_findings H [] [] [] []) = 0"
    by (simp add: risk_score_analyze risk_factors_def get_default_def)
  show ?thesis by (intro conjI) (rule lo hi sum empty)+
qed

theorem risk_score_in_range_witness:
  "py_len (get_default [(''known_breaches'', PList [PNone, PNone, PNone, PNone, PNone, PNone, PNone])]
              ''known_breaches'' (PList [])) = Inr 7 \<and>
   py_len (get_default [(''recent_pastes'', PList [PNone, PNone, PNone, PNone])] ''recent_pastes'' (PList [])) = Inr 4 \<and>
   py_len (get_default [(''mentions'', PList [PNone])] ''mentions'' (PList [])) = Inr 1 \<and>
   py_len (get_default [(''mentions'', PList [PNone, PNone])] ''mentions'' (PList [])) = Inr 2 \<and>
   risk_score (analyze_findings missing_methods
      [(''known_breaches'', PList [PNone, PNone, PNone, PNone, PNone, PNone, PNone])]
      [(''recent_pastes'', PList [PNone, PNone, PNone, PNone])]
      [(''mentions'', PList [PNone])]
      [(''mentions'', PList [PNone, PNone])]) = 100"
proof -
  let ?b = "[(''known_breaches'', PList [PNone, PNone, PNone, PNone, PNone, PNone, PNone])]"
  let ?p = "[(''recent_pastes'', PList [PNone, PNone, PNone, PNone])]"
  let ?f = "[(''mentions'', PList [PNone])]"
  let ?m = "[(''mentions'', PList [PNone, PNone])]"
  have b: "py_len (get_default ?b ''known_breaches'' (PList [])) = Inr 7"
    by (simp add: get_default_def)
  have p: "py_len (get_default ?p ''recent_pastes'' (PList [])) = Inr 4"
    by (simp add: get_default_def)
  have f: "py_len (get_default ?f ''mentions'' (PList [])) = Inr 1"
    by (simp add: get_default_def)
  have m: "py_len (get_default ?m ''mentions'' (PList [])) = Inr 2"
    by (simp add: get_default_def)
  note T = risk_score_in_range [of missing_methods ?b ?p ?f ?m 7 4 1 2,
      THEN conjunct2, THEN conjunct2, THEN conjunct1, rule_format, OF conjI [OF b conjI [OF p conjI [OF f m]]]]
  have r: "risk_score (analyze_findings missing_methods ?b ?p ?f ?m) = 100"
    unfolding T by simp
  show ?thesis by (intro conjI) (rule b p f m r)+
qed

section \<open>Absent and malformed indicator fields\<close>

lemma statistics_of_Inr:
  "risk_factors b p f m = Inr rf \<Longrightarrow> \<exists>st. statistics_of b p f tline = Inr st"
  by (auto simp: risk_factors_def statistics_of_def split: sum.splits)

lemma analyze_error_defaults:
  "analysis_error (analyze_findings H b p f m) = None \<or>
   (timeline (analyze_findings H b p f m) = [] \<and>
    recommendations (analyze_findings H b p f m) = [] \<and>
    statistics (analyze_findings H b p f m) = [])"
proof (cases "risk_factors b p f m")
  case (Inl e)
  then show ?thesis
    by (simp add: analyze_findings_def handler_def initial_analysis_def)
next
  case (Inr rf)
  show ?thesis
  proof (cases "all_events H b p f")
    case (Inl e)
    with Inr show ?thesis
      by (simp add: analyze_findings_def handler_def initial_analysis_def)
  next
    case evs: (Inr evs)
    show ?thesis
    proof (cases "sorted_reverse evs")
      case (Inl e)
      with Inr evs show ?thesis
        by (simp add: analyze_findings_def handler_def initial_analysis_def)
    next
      case tl: (Inr tline)
      from statistics_of_Inr [OF Inr] obtain st where "statistics_of b p f tline = Inr st"
        by blast
      with Inr evs tl show ?thesis
        by (simp add: analyze_findings_def handler_def initial_analysis_def)
    qed
  qed
qed

lemma risk_score_absent_breaches:
  "map_of b ''known_breaches'' = None \<Longrightarrow>
   risk_score (analyze_findings H ((''known_breaches'', PList []) # b) p f m) =
   risk_score (analyze_findings H b p f m)"
  by (simp add: risk_score_analyze risk_factors_def get_default_def cong: sum.case_cong)

lemma risk_score_absent_pastes:
  "map_of p ''recent_pastes'' = None \<Longrightarrow>
   risk_score (analyze_findings H b ((''recent_pastes'', PList []) # p) f m) =
   risk_score (analyze_findings H b p f m)"
  by (simp add: risk_score_analyze risk_factors_def get_default_def cong: sum.case_cong)

lemma risk_score_absent_forum:
  "map_of f ''mentions'' = None \<Longrightarrow>
   risk_score (analyze_findings H b p ((''mentions'', PList []) # f) m) =
   risk_score (analyze_findings H b p f m)"
  by (simp add: risk_score_analyze risk_factors_def get_default_def cong: sum.case_cong)

lemma risk_score_absent_market:
  "map_of m ''mentions'' = None \<Longrightarrow>
   risk_score (analyze_findings H b p f ((''mentions'', PList []) # m)) =
   risk_score (analyze_findings H b p f m)"
  by (simp add: risk_score_analyze risk_factors_def get_default_def cong: sum.case_cong)

lemma risk_score_sized:
  "py_len v = Inr n \<Longrightarrow>
   risk_score (analyze_findings H [(''known_breaches'', v)] [] [] []) = min (int n * 10) 100"
  by (simp add: risk_score_analyze risk_factors_def get_default_def)

text \<open>
  C9, as the specification states it, fails for a field of the wrong type. A string
  under \<open>known_breaches\<close> is counted with its length, so the risk score is 30 where an
  absent field gives 0; and a number under \<open>known_breaches\<close> makes \<open>len\<close> raise, so the
  whole analysis keeps its initial values and the pastes, which alone would score 5,
  are not counted either.
\<close>

theorem wrong_type_not_treated_as_empty_counterexample:
  "risk_score (analyze_findings missing_methods [(''known_breaches'', PStr ''abc'')] [] [] []) = 30 \<and>
   risk_score (analyze_findings missing_methods [] [] [] []) = 0 \<and>
   risk_score (analyze_findings missing_methods
      [(''known_breaches'', PInt 5)] [(''recent_pastes'', PList [PNone])] [] []) = 0 \<and>
   analysis_error (analyze_findings missing_methods
      [(''known_breaches'', PInt 5)] [(''recent_pastes'', PList [PNone])] [] [])
     = Some (''object of type '' @ [CHR 0x27] @ ''int'' @ [CHR 0x27] @ '' has no len()'') \<and>
   risk_score (analyze_findings missing_methods [] [(''recent_pastes'', PList [PNone])] [] []) = 5"
proof -
  have bad: "risk_factors [(''known_breaches'', PInt 5)] [(''recent_pastes'', PList [PNone])] [] []
      = Inl (TypeError (''object of type '' @ [CHR 0x27] @ ''int'' @ [CHR 0x27] @ '' has no len()''))"
    by (simp add: risk_factors_def get_default_def)
  have c1: "risk_score (analyze_findings missing_methods [(''known_breaches'', PStr ''abc'')] [] [] []) = 30"
    by (simp add: risk_score_analyze risk_factors_def get_default_def)
  have c2: "risk_score (analyze_findings missing_methods [] [] [] []) = 0"
    by (simp add: risk_score_analyze risk_factors_def get_default_def)
  have c3: "risk_score (analyze_findings missing_methods
      [(''known_breaches'', PInt 5)] [(''recent_pastes'', PList [PNone])] [] []) = 0"
    by (simp add: risk_factors_handler [OF bad] handler_def initial_analysis_def)
  have c4: "analysis_error (analyze_findings missing_methods
      [(''known_breaches'', PInt 5)] [(''recent_pastes'', PList [PNone])] [] [])
     = Some (''object of type '' @ [CHR 0x27] @ ''int'' @ [CHR 0x27] @ '' has no len()'')"
    by (simp add: risk_factors_handler [OF bad] handler_def initial_analysis_def)
  have c5: "risk_score (analyze_findings missing_methods [] [(''recent_pastes'', PList [PNone])] [] []) = 5"
    by (simp add: risk_score_analyze risk_factors_def get_default_def)
  show ?thesis by (intro conjI) (rule c1 c2 c3 c4 c5)+
qed

text \<open>
  C9, amended. \<open>_analyze_findings\<close> always returns an analysis block: every exception
  of its \<open>try\<close> block ends in the handler, and a block that carries an error has an
  empty timeline, no recommendations and no statistics. An absent indicator field
  counts as the empty list does. A field of a wrong type that has a length counts with
  that length; and when \<open>len\<close> raises on a field, the block is the initial one (risk
  score 0) with the message of the exception under \<open>'error'\<close>.
\<close>

theorem analysis_absorbs_malformed_fields:
  "(analysis_error (analyze_findings H b p f m) = None \<or>
      (timeline (analyze_findings H b p f m) = [] \<and>
       recommendations (analyze_findings H b p f m) = [] \<and>
       statistics (analyze_findings H b p f m) = [])) \<and>
   (map_of b ''known_breaches'' = None \<longrightarrow>
      risk_score (analyze_findings H ((''known_breaches'', PList []) # b) p f m) =
      risk_score (analyze_findings H b p f m)) \<and>
   (map_of p ''recent_pastes'' = None \<longrightarrow>
      risk_score (analyze_findings H b ((''recent_pastes'', PList []) # p) f m) =
      risk_score (analyze_findings H b p f m)) \<and>
   (map_of f ''mentions'' = None \<longrightarrow>
      risk_score (analyze_findings H b p ((''mentions'', PList []) # f) m) =
      risk_score (analyze_findings H b p f m)) \<and>
   (map_of m ''mentions'' = None \<longrightarrow>
      risk_score (analyze_findings H b p f ((''mentions'', PList []) # m)) =
      risk_score (analyze_findings H b p f m)) \<and>
   (py_len v = Inr n \<longrightarrow>
      risk_score (analyze_findings H [(''known_breaches'', v)] [] [] []) = min (int n * 10) 100) \<and>
   (risk_factors b p f m = Inl e \<longrightarrow>
      analyze_findings H b p f m = initial_analysis\<lparr>analysis_error := Some (str_exc e)\<rparr>)"
proof -
  note c0 = analyze_error_defaults [of H b p f m]
  have c1: "map_of b ''known_breaches'' = None \<longrightarrow>
      risk_score (analyze_findings H ((''known_breaches'', PList []) # b) p f m) =
      risk_score (analyze_findings H b p f m)"
    by (simp add: risk_score_absent_breaches)
  have c2: "map_of p ''recent_pastes'' = None \<longrightarrow>
      risk_score (analyze_findings H b ((''recent_pastes'', PList []) # p) f m) =
      risk_score (analyze_findings H b p f m)"
    by (simp add: risk_score_absent_pastes)
  have c3: "map_of f ''mentions'' = None \<longrightarrow>
      risk_score (analyze_findings H b p ((''mentions'', PList []) # f) m) =
      risk_score (analyze_findings H b p f m)"
    by (simp add: risk_score_absent_forum)
  have c4: "map_of m ''mentions'' = None \<longrightarrow>
      risk_score (analyze_findings H b p f ((''mentions'', PList []) # m)) =
      risk_score (analyze_findings H b p f m)"
    by (simp add: risk_score_absent_market)
  have c5: "py_len v = Inr n \<longrightarrow>
      risk_score (analyze_findings H [(''known_breaches'', v)] [] [] []) = min (int n * 10) 100"
    by (simp add: risk_score_sized)
  have c6: "risk_factors b p f m = Inl e \<longrightarrow>
      analyze_findings H b p f m = initial_analysis\<lparr>analysis_error := Some (str_exc e)\<rparr>"
    by (simp add: risk_factors_handler handler_def)
  show ?thesis by (intro conjI) (rule c0 c1 c2 c3 c4 c5 c6)+
qed

theorem analysis_absorbs_malformed_fields_witness:
  "risk_score (analyze_findings missing_methods [(''known_breaches'', PList [])] [] [] []) = 0 \<and>
   risk_score (analyze_findings missing_methods [] [(''recent_pastes'', PList [])] [] []) = 0 \<and>
   risk_score (analyze_findings missing_methods [] [] [(''mentions'', PList [])] []) = 0 \<and>
   risk_score (analyze_findings missing_methods [] [] [] [(''mentions'', PList [])]) = 0 \<and>
   risk_score (analyze_findings missing_methods [(''known_breaches'', PStr ''abc'')] [] [] []) = 30 \<and>
   analyze_findings missing_methods [(''known_breaches'', PInt 5)] [(''recent_pastes'', PList [PNone])] [] [] =
     initial_analysis\<lparr>analysis_error :=
        Some (''object of type '' @ [CHR 0x27] @ ''int'' @ [CHR 0x27] @ '' has no len()'')\<rparr>"
proof -
  let ?H = missing_methods
  let ?b = "[(''known_breaches'', PInt 5)]"
  let ?p = "[(''recent_pastes'', PList [PNone])]"
  let ?e = "TypeError (''object of type '' @ [CHR 0x27] @ ''int'' @ [CHR 0x27] @ '' has no len()'')"
  have none: "map_of ([] :: pydict) k = None" for k by simp
  have zero: "risk_score (analyze_findings ?H [] [] [] []) = 0"
    by (simp add: risk_score_analyze risk_factors_def get_default_def)
  have len: "py_len (PStr ''abc'') = Inr 3" by simp
  have bad: "risk_factors ?b ?p [] [] = Inl ?e"
    by (simp add: risk_factors_def get_default_def)
  note T = analysis_absorbs_malformed_fields [of ?H "[]" "[]" "[]" "[]" "PStr ''abc''" 3]
  note U = analysis_absorbs_malformed_fields [of ?H ?b ?p "[]" "[]" _ _ ?e]
  have c1: "risk_score (analyze_findings ?H [(''known_breaches'', PList [])] [] [] []) = 0"
    using T none zero by simp
  have c2: "risk_score (analyze_findings ?H [] [(''recent_pastes'', PList [])] [] []) = 0"
    using T none zero by simp
  have c3: "risk_score (analyze_findings ?H [] [] [(''mentions'', PList [])] []) = 0"
    using T none zero by simp
  have c4: "risk_score (analyze_findings ?H [] [] [] [(''mentions'', PList [])]) = 0"
    using T none zero by simp
  have c5: "risk_score (analyze_findings ?H [(''known_breaches'', PStr ''abc'')] [] [] []) = 30"
    using T len by simp
  have c6: "analyze_findings ?H ?b ?p [] [] = initial_analysis\<lparr>analysis_error :=
        Some (''object of type '' @ [CHR 0x27] @ ''int'' @ [CHR 0x27] @ '' has no len()'')\<rparr>"
    using U bad by simp
  show ?thesis by (intro conjI) (rule c1 c2 c3 c4 c5 c6)+
qed

section \<open>The recommendations\<close>









lemma analyze_findings_ok:
  assumes "risk_factors b p f m = Inr rf" and "all_events H b p f = Inr evs"
    and "sorted_reverse evs = Inr tline"
  shows "analysis_error (analyze_findings H b p f m) = None \<and>
         timeline (analyze_findings H b p f m) = tline \<and>
         recommendations (analyze_findings H b p f m) = generate_recommendations [b, p, f, m]"
proof -
  from statistics_of_Inr [OF assms(1)] obtain st where "statistics_of b p f tline = Inr st"
    by blast
  with assms show ?thesis
    by (simp add: analyze_findings_def handler_def initial_analysis_def)
qed



section \<open>The timeline\<close>

lemma keyed_Inr:
  "keyed evs = Inr ks \<Longrightarrow> map snd ks = evs \<and> map (\<lambda>ke. Some (fst ke)) ks = map date evs"
proof (induction evs arbitrary: ks)
  case Nil
  then show ?case by simp
next
  case (Cons e es)
  then show ?case
    by (auto split: option.splits sum.splits)
qed

lemma keyed_dated:
  "\<forall>e \<in> set evs. date e \<noteq> None \<Longrightarrow> \<exists>ks. keyed evs = Inr ks"
  by (induction evs) auto

lemma keyed_pairs:
  "keyed evs = Inr ks \<Longrightarrow> \<forall>ke \<in> set ks. date (snd ke) = Some (fst ke)"
proof (induction evs arbitrary: ks)
  case Nil
  then show ?case by simp
next
  case (Cons e es)
  then show ?case
    by (auto split: option.splits sum.splits)
qed

lemma filter_map_snd_keyed:
  assumes "\<forall>ke \<in> set L. date (snd ke) = Some (fst ke)"
  shows "filter (\<lambda>e. date e = Some d) (map snd L) = map snd (filter (\<lambda>ke. fst ke = d) L)"
  using assms by (induction L) auto

lemma reverse_sort_stable:
  "filter (\<lambda>ke. fst ke = d) (rev (sort_key fst (rev ks))) = filter (\<lambda>ke. fst ke = d) ks"
proof -
  have "filter (\<lambda>ke. fst ke = d) (rev (sort_key fst (rev ks)))
      = rev (filter (\<lambda>ke. fst ke = d) (sort_key fst (rev ks)))"
    by (simp add: rev_filter)
  also have "\<dots> = rev (filter (\<lambda>ke. fst ke = d) (rev ks))"
    by (simp add: sort_key_stable)
  also have "\<dots> = filter (\<lambda>ke. fst ke = d) ks"
    by (simp add: rev_filter)
  finally show ?thesis .
qed

lemma sorted_reverse_props:
  assumes "sorted_reverse evs = Inr tline"
  shows "mset tline = mset evs"
    and "\<exists>ds. map date tline = map Some ds \<and> sorted (rev ds)"
    and "filter (\<lambda>e. date e = Some d) tline = filter (\<lambda>e. date e = Some d) evs"
proof -
  from assms obtain ks where ks: "keyed evs = Inr ks"
    and tl: "tline = map snd (rev (sort_key fst (rev ks)))"
    by (auto simp: sorted_reverse_def split: sum.splits)
  let ?L = "rev (sort_key fst (rev ks))"
  have msL: "mset ?L = mset ks" by simp
  have "mset tline = mset (map snd ks)"
    unfolding tl using msL by (metis mset_map)
  then show "mset tline = mset evs"
    using keyed_Inr [OF ks] by simp
  have pairs: "\<forall>ke \<in> set ?L. date (snd ke) = Some (fst ke)"
    using keyed_pairs [OF ks] by simp
  have "map date tline = map Some (map fst ?L)"
    unfolding tl using pairs by (simp add: comp_def)
  moreover have "sorted (rev (map fst ?L))"
    by (simp add: rev_map [symmetric])
  ultimately show "\<exists>ds. map date tline = map Some ds \<and> sorted (rev ds)"
    by blast
  have "filter (\<lambda>e. date e = Some d) tline = map snd (filter (\<lambda>ke. fst ke = d) ?L)"
    unfolding tl by (rule filter_map_snd_keyed [OF pairs])
  also have "\<dots> = map snd (filter (\<lambda>ke. fst ke = d) ks)"
    by (simp only: reverse_sort_stable)
  also have "\<dots> = filter (\<lambda>e. date e = Some d) (map snd ks)"
    by (rule filter_map_snd_keyed [OF keyed_pairs [OF ks], symmetric])
  finally show "filter (\<lambda>e. date e = Some d) tline = filter (\<lambda>e. date e = Some d) evs"
    using keyed_Inr [OF ks] by simp
qed

lemma sorted_reverse_dated:
  "\<forall>e \<in> set evs. date e \<noteq> None \<Longrightarrow> \<exists>tline. sorted_reverse evs = Inr tline"
  using keyed_dated [of evs] by (auto simp: sorted_reverse_def)

text \<open>
  What the sort gives when the helpers return their events: the timeline holds exactly
  the events the three helpers return on the findings, with the dates in descending
  order and the events of one date in the order of the helpers; one event without a
  date makes the sort raise, and the handler leaves the timeline empty.
\<close>

lemma str_KeyError_date: "str_exc (KeyError ''date'') = [CHR 0x27] @ ''date'' @ [CHR 0x27]"
  by (simp add: py_repr_def repr_char_def Let_def)

lemma sorted_reverse_undated:
  "e \<in> set evs \<Longrightarrow> date e = None \<Longrightarrow> sorted_reverse evs = Inl (KeyError ''date'')"
proof -
  assume "e \<in> set evs" "date e = None"
  then have "keyed evs = Inl (KeyError ''date'')"
    by (induction evs) (auto split: option.splits sum.splits)
  then show ?thesis by (simp add: sorted_reverse_def)
qed

lemma timeline_of_helper_events:
  assumes "risk_factors b p f m = Inr rf"
    and "events_from_breaches H b = Inr eb"
    and "events_from_pastes H p = Inr ep"
    and "events_from_forums H f = Inr ef"
    and "\<forall>e \<in> set (eb @ ep @ ef). date e \<noteq> None"
  shows "mset (timeline (analyze_findings H b p f m)) = mset (eb @ ep @ ef) \<and>
         (\<exists>ds. map date (timeline (analyze_findings H b p f m)) = map Some ds \<and> sorted (rev ds)) \<and>
         (\<forall>d. filter (\<lambda>e. date e = Some d) (timeline (analyze_findings H b p f m)) =
              filter (\<lambda>e. date e = Some d) (eb @ ep @ ef))"
proof -
  have ev: "all_events H b p f = Inr (eb @ ep @ ef)"
    using assms(2-4) by (simp add: all_events_def)
  from sorted_reverse_dated [OF assms(5)] obtain tline
    where tl: "sorted_reverse (eb @ ep @ ef) = Inr tline"
    by blast
  have t: "timeline (analyze_findings H b p f m) = tline"
    using analyze_findings_ok [OF assms(1) ev tl] by simp
  show ?thesis
    unfolding t using sorted_reverse_props [OF tl] by blast
qed

text \<open>
  With the helpers as the module has them the timeline is empty for every input, and
  the block carries an error.
\<close>

lemma timeline_missing_methods:
  "timeline (analyze_findings missing_methods b p f m) = [] \<and>
   analysis_error (analyze_findings missing_methods b p f m) \<noteq> None"
proof (cases "risk_factors b p f m")
  case (Inl e)
  then show ?thesis
    by (simp add: analyze_findings_def handler_def initial_analysis_def)
next
  case (Inr rf)
  have "\<exists>e. all_events missing_methods b p f = Inl e"
    by (simp add: all_events_def missing_methods_def)
  then obtain e where "all_events missing_methods b p f = Inl e" by blast
  with Inr show ?thesis
    by (simp add: analyze_findings_def handler_def initial_analysis_def)
qed

text \<open>
  C7. The timeline should hold all dated events of the findings, most recent first.
  The module does not build it: \<open>_analyze_findings\<close> calls \<open>_events_from_breaches\<close>,
  which no class defines, so the call raises \<open>AttributeError\<close> before the sort is reached
  and the handler returns the block with the empty timeline. On findings with one known
  breach of 2013-10-04 the block has risk score 10, no timeline, no recommendations, no
  statistics and the message of the \<open>AttributeError\<close>.
\<close>

theorem timeline_never_built:
  "analyze_findings missing_methods
     [(''known_breaches'', PList [PDict [(''Name'', PStr ''Adobe''), (''Domain'', PStr ''example.com''),
                                         (''BreachDate'', PStr ''2013-10-04'')]]),
      (''potential_exposures'', PList []),
      (''last_checked'', PStr ''2024-05-01T10:00:00'')]
     [(''recent_pastes'', PList []), (''historical_pastes'', PList []),
      (''monitoring_status'', PStr ''active'')]
     [(''mentions'', PList []), (''discussions'', PList []), (''research_posts'', PList [])]
     [(''mentions'', PList []), (''listings'', PList []),
      (''last_checked'', PStr ''2024-05-01T10:00:00'')]
   = \<lparr>risk_score = 10, summary = [], recommendations = [], timeline = [], statistics = [],
      analysis_error = Some ([CHR 0x27] @ ''DarkWebModule'' @ [CHR 0x27] @ '' object has no attribute ''
                             @ [CHR 0x27] @ ''_events_from_breaches'' @ [CHR 0x27])\<rparr>"
proof -
  let ?b = "[(''known_breaches'', PList [PDict [(''Name'', PStr ''Adobe''), (''Domain'', PStr ''example.com''),
                                         (''BreachDate'', PStr ''2013-10-04'')]]),
      (''potential_exposures'', PList []),
      (''last_checked'', PStr ''2024-05-01T10:00:00'')]"
  let ?p = "[(''recent_pastes'', PList []), (''historical_pastes'', PList []),
      (''monitoring_status'', PStr ''active'')]"
  let ?f = "[(''mentions'', PList []), (''discussions'', PList []), (''research_posts'', PList [])]"
  let ?m = "[(''mentions'', PList []), (''listings'', PList []),
      (''last_checked'', PStr ''2024-05-01T10:00:00'')]"
  have rf: "risk_factors ?b ?p ?f ?m = Inr [(''recent_breaches'', 10), (''paste_exposure'', 0),
       (''forum_mentions'', 0), (''market_mentions'', 0)]"
    by (simp add: risk_factors_def get_default_def)
  have ev: "all_events missing_methods ?b ?p ?f =
      Inl (AttributeError ([CHR 0x27] @ ''DarkWebModule'' @ [CHR 0x27] @ '' object has no attribute ''
                             @ [CHR 0x27] @ ''_events_from_breaches'' @ [CHR 0x27]))"
    by (simp add: all_events_def missing_methods_def)
  show ?thesis
    by (simp add: analyze_findings_def rf ev handler_def initial_analysis_def)
qed

section \<open>The exposure trend\<close>

lemma group_by_month_dated:
  "map date tline = map Some ds \<Longrightarrow>
   group_by_month tline acc = Inr (fold bump (map (take 7) ds) acc)"
proof (induction tline arbitrary: ds acc)
  case Nil
  then show ?case by simp
next
  case (Cons e es)
  then obtain d ds' where "ds = d # ds'" "date e = Some d" "map date es = map Some ds'"
    by (cases ds) auto
  with Cons.IH [of ds'] show ?case by simp
qed

lemma map_of_bump:
  "map_of (bump m acc) k =
     (if k = m then Some (case map_of acc m of None \<Rightarrow> 1 | Some c \<Rightarrow> c + 1) else map_of acc k)"
  by (induction m acc rule: bump.induct) auto

lemma keys_bump: "set (map fst (bump m acc)) = insert m (set (map fst acc))"
  by (induction m acc rule: bump.induct) auto

lemma distinct_bump: "distinct (map fst acc) \<Longrightarrow> distinct (map fst (bump m acc))"
proof (induction m acc rule: bump.induct)
  case (1 m)
  then show ?case by simp
next
  case (2 m k c rest)
  then show ?case
    using keys_bump [of m rest] by (auto simp del: set_map)
qed

lemma keys_fold_bump: "set (map fst (fold bump ms acc)) = set ms \<union> set (map fst acc)"
  by (induction ms arbitrary: acc) (auto simp: keys_bump simp del: set_map)

lemma distinct_fold_bump: "distinct (map fst acc) \<Longrightarrow> distinct (map fst (fold bump ms acc))"
  by (induction ms arbitrary: acc) (simp_all add: distinct_bump)

lemma map_of_fold_bump:
  "map_of (fold bump ms acc) k =
     (if count_list ms k = 0 then map_of acc k
      else Some ((case map_of acc k of None \<Rightarrow> 0 | Some c \<Rightarrow> c) + count_list ms k))"
proof (induction ms arbitrary: acc)
  case Nil
  then show ?case by simp
next
  case (Cons m ms)
  show ?case
    by (simp add: Cons.IH map_of_bump split: option.splits)
qed

lemma set_fold_bump:
  "set (fold bump ms []) = (\<lambda>k. (k, count_list ms k)) ` set ms"
proof -
  let ?M = "fold bump ms []"
  have d: "distinct (map fst ?M)" by (simp add: distinct_fold_bump)
  have pos: "\<And>k. k \<in> set ms \<longleftrightarrow> count_list ms k \<noteq> 0"
    by (simp add: count_list_0_iff)
  have "\<And>k c. (k, c) \<in> set ?M \<longleftrightarrow> k \<in> set ms \<and> c = count_list ms k"
  proof -
    fix k c
    have "(k, c) \<in> set ?M \<longleftrightarrow> map_of ?M k = Some c"
      using d by simp
    also have "\<dots> \<longleftrightarrow> k \<in> set ms \<and> c = count_list ms k"
      by (auto simp: map_of_fold_bump pos)
    finally show "(k, c) \<in> set ?M \<longleftrightarrow> k \<in> set ms \<and> c = count_list ms k" .
  qed
  then show ?thesis by auto
qed

lemma sort_fold_bump:
  "sort (fold bump ms []) = map (\<lambda>k. (k, count_list ms k)) (sorted_list_of_set (set ms))"
proof (rule sorted_distinct_set_unique)
  let ?M = "fold bump ms []"
  let ?B = "sorted_list_of_set (set ms)"
  let ?g = "\<lambda>k. (k, count_list ms k)"
  show "sorted (sort ?M)" by simp
  have "distinct (map fst ?M)" by (simp add: distinct_fold_bump)
  then have "distinct ?M" by (simp add: distinct_map)
  then show "distinct (sort ?M)" by simp
  have "sorted_wrt (\<lambda>x y. ?g x \<le> ?g y) ?B"
  proof (rule sorted_wrt_mono_rel [of _ "(\<le>)"])
    fix x y :: string
    assume "x \<le> y"
    then have "x < y \<or> x = y" by (simp add: le_less)
    then show "?g x \<le> ?g y" by (auto simp: less_eq_prod_def)
  qed simp
  then show "sorted (map ?g ?B)" by (simp add: sorted_map)
  show "distinct (map ?g ?B)" by (simp add: distinct_map inj_on_def)
  show "set (sort ?M) = set (map ?g ?B)" by (simp add: set_fold_bump)
qed

lemma length_filter_insert:
  "a \<notin> S \<Longrightarrow> length (filter (\<lambda>x. x = a \<or> x \<in> S) ms) = count_list ms a + length (filter (\<lambda>x. x \<in> S) ms)"
  by (induction ms) auto

lemma sum_counts:
  "distinct L \<Longrightarrow> sum_list (map (count_list ms) L) = length (filter (\<lambda>x. x \<in> set L) ms)"
proof (induction L)
  case Nil
  then show ?case by simp
next
  case (Cons a L)
  then have "a \<notin> set L" "distinct L" by simp_all
  with Cons.IH length_filter_insert [of a "set L" ms] show ?case by simp
qed

lemma sum_counts_months:
  assumes "distinct L"
  shows "sum_list (map snd (map (\<lambda>k. (k, count_list (map (take 7) ds) k)) L)) =
         length (filter (\<lambda>d. take 7 d \<in> set L) ds)"
proof -
  have "sum_list (map snd (map (\<lambda>k. (k, count_list (map (take 7) ds) k)) L)) =
        sum_list (map (count_list (map (take 7) ds)) L)"
    by (simp add: comp_def)
  also have "\<dots> = length (filter (\<lambda>x. x \<in> set L) (map (take 7) ds))"
    by (rule sum_counts [OF assms])
  also have "\<dots> = length (filter (\<lambda>d. take 7 d \<in> set L) ds)"
    by (simp add: filter_map comp_def)
  finally show ?thesis .
qed

lemma trend_characterisation:
  assumes "map date tline = map Some ds"
  shows "calculate_exposure_trend tline =
     (if length (month_buckets ds) < 2 then ''insufficient_data''
      else if real (spec_recent ds) > real (spec_older ds) * 1.5 then ''increasing''
      else if real (spec_recent ds) * 1.5 < real (spec_older ds) then ''decreasing''
      else ''stable'')"
proof (cases "tline = []")
  case True
  with assms have "ds = []" by simp
  with True show ?thesis
    by (simp add: calculate_exposure_trend_def month_buckets_def)
next
  case False
  let ?ms = "map (take 7) ds"
  let ?B = "month_buckets ds"
  let ?g = "\<lambda>k. (k, count_list ?ms k)"
  let ?n = "length ?B"
  have g: "group_by_month tline [] = Inr (fold bump ?ms [])"
    by (rule group_by_month_dated [OF assms])
  have s: "sort (fold bump ?ms []) = map ?g ?B"
    by (simp add: sort_fold_bump month_buckets_def)
  have dB: "distinct ?B" by (simp add: month_buckets_def)
  have rec: "sum_list (map snd (drop (?n - 3) (map ?g ?B))) = spec_recent ds"
    unfolding drop_map spec_recent_def
    by (rule sum_counts_months) (simp add: dB)
  have old: "sum_list (map snd (take (?n - 3) (map ?g ?B))) = spec_older ds"
    unfolding take_map spec_older_def
    by (rule sum_counts_months) (simp add: dB)
  have len: "length (map ?g ?B) = ?n" by simp
  show ?thesis
    using False
    by (simp only: calculate_exposure_trend_def g sum.case Let_def s len rec old if_False)
qed

lemma length_month_buckets: "length (month_buckets ds) = card (set (map (take 7) ds))"
  by (simp add: month_buckets_def)

lemma spec_older_few: "length (month_buckets ds) \<le> 3 \<Longrightarrow> spec_older ds = 0"
  by (simp add: spec_older_def)

lemma spec_recent_few: "length (month_buckets ds) \<le> 3 \<Longrightarrow> spec_recent ds = length ds"
proof -
  assume "length (month_buckets ds) \<le> 3"
  then have "drop (length (month_buckets ds) - 3) (month_buckets ds) = month_buckets ds"
    by simp
  moreover have "\<forall>d \<in> set ds. take 7 d \<in> set (month_buckets ds)"
    by (simp add: month_buckets_def)
  ultimately show ?thesis
    by (simp add: spec_recent_def)
qed

text \<open>
  C4. On a timeline whose events are dated, \<open>_calculate_exposure_trend\<close> returns
  \<open>insufficient_data\<close> when the dates fall in fewer than two months. Otherwise, with
  \<open>recent\<close> the number of events in the three most recent months and \<open>older\<close> the number
  of events in all earlier months, it returns \<open>increasing\<close> exactly when recent exceeds
  1.5 times older, \<open>decreasing\<close> exactly when older exceeds 1.5 times recent, and
  \<open>stable\<close> exactly when neither holds. So recent 10 and older 5 give \<open>increasing\<close>,
  recent 4 and older 10 give \<open>decreasing\<close>, and recent 5 and older 5 give \<open>stable\<close>.
\<close>

theorem exposure_trend_classification:
  assumes "map date tline = map Some ds"
  shows "(card (set (map (take 7) ds)) < 2 \<longrightarrow>
            calculate_exposure_trend tline = ''insufficient_data'') \<and>
         (2 \<le> card (set (map (take 7) ds)) \<longrightarrow>
            (calculate_exposure_trend tline = ''increasing'' \<longleftrightarrow>
               real (spec_recent ds) > real (spec_older ds) * 1.5) \<and>
            (calculate_exposure_trend tline = ''decreasing'' \<longleftrightarrow>
               real (spec_older ds) > real (spec_recent ds) * 1.5) \<and>
            (calculate_exposure_trend tline = ''stable'' \<longleftrightarrow>
               \<not> real (spec_recent ds) > real (spec_older ds) * 1.5 \<and>
               \<not> real (spec_older ds) > real (spec_recent ds) * 1.5)) \<and>
         (spec_recent ds = 10 \<and> spec_older ds = 5 \<longrightarrow> calculate_exposure_trend tline = ''increasing'') \<and>
         (spec_recent ds = 4 \<and> spec_older ds = 10 \<longrightarrow> calculate_exposure_trend tline = ''decreasing'') \<and>
         (spec_recent ds = 5 \<and> spec_older ds = 5 \<longrightarrow> calculate_exposure_trend tline = ''stable'')"
proof -
  note ch = trend_characterisation [OF assms]
  note n = length_month_buckets [of ds]
  have many: "0 < spec_older ds \<Longrightarrow> \<not> length (month_buckets ds) < 2"
    using spec_older_few [of ds] by auto
  have c1: "card (set (map (take 7) ds)) < 2 \<longrightarrow> calculate_exposure_trend tline = ''insufficient_data''"
    by (simp add: ch n)
  have excl: "real (spec_older ds) > real (spec_recent ds) * 1.5 \<Longrightarrow>
      \<not> real (spec_recent ds) > real (spec_older ds) * 1.5"
    by simp
  have c2: "2 \<le> card (set (map (take 7) ds)) \<longrightarrow>
            (calculate_exposure_trend tline = ''increasing'' \<longleftrightarrow>
               real (spec_recent ds) > real (spec_older ds) * 1.5) \<and>
            (calculate_exposure_trend tline = ''decreasing'' \<longleftrightarrow>
               real (spec_older ds) > real (spec_recent ds) * 1.5) \<and>
            (calculate_exposure_trend tline = ''stable'' \<longleftrightarrow>
               \<not> real (spec_recent ds) > real (spec_older ds) * 1.5 \<and>
               \<not> real (spec_older ds) > real (spec_recent ds) * 1.5)"
  proof
    assume "2 \<le> card (set (map (take 7) ds))"
    then have ge: "\<not> length (month_buckets ds) < 2" by (simp add: n)
    show "(calculate_exposure_trend tline = ''increasing'' \<longleftrightarrow>
               real (spec_recent ds) > real (spec_older ds) * 1.5) \<and>
            (calculate_exposure_trend tline = ''decreasing'' \<longleftrightarrow>
               real (spec_older ds) > real (spec_recent ds) * 1.5) \<and>
            (calculate_exposure_trend tline = ''stable'' \<longleftrightarrow>
               \<not> real (spec_recent ds) > real (spec_older ds) * 1.5 \<and>
               \<not> real (spec_older ds) > real (spec_recent ds) * 1.5)"
      unfolding ch using ge excl by auto
  qed
  have c3: "spec_recent ds = 10 \<and> spec_older ds = 5 \<longrightarrow> calculate_exposure_trend tline = ''increasing''"
    using many by (simp add: ch)
  have c4: "spec_recent ds = 4 \<and> spec_older ds = 10 \<longrightarrow> calculate_exposure_trend tline = ''decreasing''"
    using many by (simp add: ch)
  have c5: "spec_recent ds = 5 \<and> spec_older ds = 5 \<longrightarrow> calculate_exposure_trend tline = ''stable''"
    using many by (simp add: ch)
  show ?thesis by (intro conjI) (rule c1 c2 c3 c4 c5)+
qed

theorem exposure_trend_classification_witness:
  "spec_recent (replicate 5 ''2023-01-10'' @ replicate 4 ''2023-02-10'' @
                replicate 3 ''2023-03-10'' @ replicate 3 ''2023-04-10'') = 10 \<and>
   spec_older (replicate 5 ''2023-01-10'' @ replicate 4 ''2023-02-10'' @
               replicate 3 ''2023-03-10'' @ replicate 3 ''2023-04-10'') = 5 \<and>
   calculate_exposure_trend (map (\<lambda>d. \<lparr>date = Some d, detail = []\<rparr>)
      (replicate 5 ''2023-01-10'' @ replicate 4 ''2023-02-10'' @
       replicate 3 ''2023-03-10'' @ replicate 3 ''2023-04-10'')) = ''increasing'' \<and>
   spec_recent (replicate 10 ''2023-01-10'' @ replicate 2 ''2023-02-10'' @
                replicate 1 ''2023-03-10'' @ replicate 1 ''2023-04-10'') = 4 \<and>
   spec_older (replicate 10 ''2023-01-10'' @ replicate 2 ''2023-02-10'' @
               replicate 1 ''2023-03-10'' @ replicate 1 ''2023-04-10'') = 10 \<and>
   calculate_exposure_trend (map (\<lambda>d. \<lparr>date = Some d, detail = []\<rparr>)
      (replicate 10 ''2023-01-10'' @ replicate 2 ''2023-02-10'' @
       replicate 1 ''2023-03-10'' @ replicate 1 ''2023-04-10'')) = ''decreasing'' \<and>
   spec_recent (replicate 5 ''2023-01-10'' @ replicate 2 ''2023-02-10'' @
                replicate 2 ''2023-03-10'' @ replicate 1 ''2023-04-10'') = 5 \<and>
   spec_older (replicate 5 ''2023-01-10'' @ replicate 2 ''2023-02-10'' @
               replicate 2 ''2023-03-10'' @ replicate 1 ''2023-04-10'') = 5 \<and>
   calculate_exposure_trend (map (\<lambda>d. \<lparr>date = Some d, detail = []\<rparr>)
      (replicate 5 ''2023-01-10'' @ replicate 2 ''2023-02-10'' @
       replicate 2 ''2023-03-10'' @ replicate 1 ''2023-04-10'')) = ''stable'' \<and>
   card (set (map (take 7) [''2023-01-10'', ''2023-01-22''])) < 2 \<and>
   calculate_exposure_trend (map (\<lambda>d. \<lparr>date = Some d, detail = []\<rparr>)
      [''2023-01-10'', ''2023-01-22'']) = ''insufficient_data''"
proof -
  let ?ev = "\<lambda>d. \<lparr>date = Some d, detail = ([] :: pydict)\<rparr>"
  let ?d1 = "replicate 5 ''2023-01-10'' @ replicate 4 ''2023-02-10'' @
             replicate 3 ''2023-03-10'' @ replicate 3 ''2023-04-10''"
  let ?d2 = "replicate 10 ''2023-01-10'' @ replicate 2 ''2023-02-10'' @
             replicate 1 ''2023-03-10'' @ replicate 1 ''2023-04-10''"
  let ?d3 = "replicate 5 ''2023-01-10'' @ replicate 2 ''2023-02-10'' @
             replicate 2 ''2023-03-10'' @ replicate 1 ''2023-04-10''"
  let ?d4 = "[''2023-01-10'', ''2023-01-22'']"
  have dated: "\<And>ds. map date (map ?ev ds) = map Some ds"
    by (simp add: comp_def)
  have r1: "spec_recent ?d1 = 10" by code_simp
  have o1: "spec_older ?d1 = 5" by code_simp
  have r2: "spec_recent ?d2 = 4" by code_simp
  have o2: "spec_older ?d2 = 10" by code_simp
  have r3: "spec_recent ?d3 = 5" by code_simp
  have o3: "spec_older ?d3 = 5" by code_simp
  have k4: "card (set (map (take 7) ?d4)) < 2" by code_simp
  have t1: "calculate_exposure_trend (map ?ev ?d1) = ''increasing''"
    using exposure_trend_classification [OF dated [of ?d1]] r1 o1 by blast
  have t2: "calculate_exposure_trend (map ?ev ?d2) = ''decreasing''"
    using exposure_trend_classification [OF dated [of ?d2]] r2 o2 by blast
  have t3: "calculate_exposure_trend (map ?ev ?d3) = ''stable''"
    using exposure_trend_classification [OF dated [of ?d3]] r3 o3 by blast
  have t4: "calculate_exposure_trend (map ?ev ?d4) = ''insufficient_data''"
    using exposure_trend_classification [OF dated [of ?d4]] k4 by blast
  show ?thesis by (intro conjI) (rule r1 o1 t1 r2 o2 t2 r3 o3 t3 k4 t4)+
qed

text \<open>
  C10. On a timeline whose events are dated and fall in exactly two or exactly three
  months, no month comes before the three most recent ones: the number of older events
  is 0, in the specification's reading and in the sum the code computes, and the trend
  is \<open>increasing\<close>.
\<close>

theorem few_buckets_always_increasing:
  assumes "map date tline = map Some ds"
    and "card (set (map (take 7) ds)) = 2 \<or> card (set (map (take 7) ds)) = 3"
  shows "spec_older ds = 0 \<and>
         (\<forall>months. group_by_month tline [] = Inr months \<longrightarrow>
            sum_list (map snd (take (length (sort months) - 3) (sort months))) = 0) \<and>
         calculate_exposure_trend tline = ''increasing''"
proof -
  have len: "length (month_buckets ds) = 2 \<or> length (month_buckets ds) = 3"
    using assms(2) by (simp add: length_month_buckets)
  then have le: "length (month_buckets ds) \<le> 3" and ge: "\<not> length (month_buckets ds) < 2"
    by auto
  have old: "spec_older ds = 0" by (rule spec_older_few [OF le])
  have "ds \<noteq> []" using len by (auto simp: month_buckets_def)
  then have new: "0 < spec_recent ds" by (simp add: spec_recent_few [OF le])
  have code: "\<forall>months. group_by_month tline [] = Inr months \<longrightarrow>
            sum_list (map snd (take (length (sort months) - 3) (sort months))) = 0"
  proof (intro allI impI)
    fix months assume "group_by_month tline [] = Inr months"
    then have "months = fold bump (map (take 7) ds) []"
      by (simp add: group_by_month_dated [OF assms(1)])
    then have "length (sort months) = length (month_buckets ds)"
      by (simp add: sort_fold_bump month_buckets_def del: length_sort)
    with le show "sum_list (map snd (take (length (sort months) - 3) (sort months))) = 0"
      by simp
  qed
  have "calculate_exposure_trend tline = ''increasing''"
    unfolding trend_characterisation [OF assms(1)] using ge old new by simp
  with old code show ?thesis by blast
qed

theorem few_buckets_always_increasing_witness:
  "card (set (map (take 7) [''2024-01-05'', ''2024-02-07''])) = 2 \<and>
   calculate_exposure_trend (map (\<lambda>d. \<lparr>date = Some d, detail = []\<rparr>)
      [''2024-01-05'', ''2024-02-07'']) = ''increasing'' \<and>
   card (set (map (take 7) [''2024-03-01'', ''2024-01-05'', ''2024-02-07'', ''2024-01-09''])) = 3 \<and>
   spec_older [''2024-03-01'', ''2024-01-05'', ''2024-02-07'', ''2024-01-09''] = 0 \<and>
   calculate_exposure_trend (map (\<lambda>d. \<lparr>date = Some d, detail = []\<rparr>)
      [''2024-03-01'', ''2024-01-05'', ''2024-02-07'', ''2024-01-09'']) = ''increasing''"
proof -
  let ?ev = "\<lambda>d. \<lparr>date = Some d, detail = ([] :: pydict)\<rparr>"
  let ?d2 = "[''2024-01-05'', ''2024-02-07'']"
  let ?d3 = "[''2024-03-01'', ''2024-01-05'', ''2024-02-07'', ''2024-01-09'']"
  have dated: "\<And>ds. map date (map ?ev ds) = map Some ds"
    by (simp add: comp_def)
  have k2: "card (set (map (take 7) ?d2)) = 2" by code_simp
  have k3: "card (set (map (take 7) ?d3)) = 3" by code_simp
  note T2 = few_buckets_always_increasing [OF dated [of ?d2] disjI1 [OF k2]]
  note T3 = few_buckets_always_increasing [OF dated [of ?d3] disjI2 [OF k3]]
  have t2: "calculate_exposure_trend (map ?ev ?d2) = ''increasing''"
    using T2 by blast
  have o3: "spec_older ?d3 = 0"
    using T3 by blast
  have t3: "calculate_exposure_trend (map ?ev ?d3) = ''increasing''"
    using T3 by blast
  show ?thesis by (intro conjI) (rule k2 t2 k3 o3 t3)+
qed

end
